theory Spec2Isabelle
  imports Main "HOL-Library.Sublist"
begin

section \<open>The DAO proposal bot (bot.js)\<close>

text \<open>
  A shallow embedding of \<^verbatim>\<open>src/bot.js\<close>. The program is a single Node.js script: every
  \<^verbatim>\<open>async\<close> function is modelled as a function on an explicit world that returns either the
  error the promise rejects with or the value it resolves to, together with the world it
  leaves behind. The world holds the two JSON files, the one global variable
  (\<^verbatim>\<open>monitoringTimeout\<close>), the pending timers, and what the surroundings will answer: the
  outcome of each coming upstream read, channel send and file-system call, in call order.
  Every effect the outside can observe is appended to a trace.
\<close>

subsection \<open>Values\<close>

datatype js_error =
    ResponseError nat      \<comment> \<open>an error with \<^verbatim>\<open>err.response.status\<close>\<close>
  | ReferenceError string  \<comment> \<open>an identifier that is not bound\<close>
  | Error string           \<comment> \<open>any other error: \<^verbatim>\<open>err.response\<close> is undefined\<close>

text \<open>What the SDK hands back for one proposal account (the fields bot.js reads).\<close>

record raw_proposal =
  publicKey :: string
  governance :: string
  name :: string
  descriptionLink :: "string option"    \<comment> \<open>\<open>None\<close>: undefined or null\<close>
  rawState :: "string list"             \<comment> \<open>\<^verbatim>\<open>Object.keys(proposal.state)\<close>\<close>
  votingCompletedAt :: "int option"     \<comment> \<open>seconds; \<open>None\<close>: null\<close>

datatype voting_end =
    EndsAt int             \<comment> \<open>\<^verbatim>\<open>new Date(ms).toISOString()\<close> of the instant \<open>ms\<close>\<close>
  | NoEndTimeAvailable     \<comment> \<open>the text "No end time available"\<close>

text \<open>The object built at lines 93-101; its \<^verbatim>\<open>id\<close> field is \<open>proposal_id\<close> here.\<close>

record proposal =
  proposal_id :: string
  title :: string
  description :: string
  state :: "string option"              \<comment> \<open>\<open>None\<close>: undefined (a state object with no key)\<close>
  votingEndTime :: voting_end

record channel =
  channelId :: string
  isTextBased :: bool

record config =
  realmId :: "string option"
  programId :: "string option"
  notificationChannelId :: "string option"

text \<open>What \<^verbatim>\<open>channel.send\<close> is given: the embed of line 124, or one of the fixed texts.\<close>

datatype payload =
    Embed string string "string option" voting_end int
      \<comment> \<open>title, description, the State field, the Voting Ends field, color\<close>
  | NoProposalsFound       \<comment> \<open>"No proposals found during this check."\<close>
  | Detected nat           \<comment> \<open>"Detected n new proposals."\<close>
  | ErrorOccurred          \<comment> \<open>"An error occurred while processing proposals. Check the logs for details."\<close>

datatype event =
    Attempt string string          \<comment> \<open>one entry into the try body of fetchProposals (realm, program)\<close>
  | Delay nat                      \<comment> \<open>a wait of so many milliseconds\<close>
  | Send string payload bool       \<comment> \<open>\<^verbatim>\<open>channel.send\<close> on the channel with this id; True iff delivered\<close>
  | WriteStore "string list" bool  \<comment> \<open>\<^verbatim>\<open>fs.writeFile(PROPOSAL_STORE_FILE, ...)\<close>; True iff written\<close>
  | WriteConfig config bool        \<comment> \<open>\<^verbatim>\<open>fs.writeFile(CONFIG_FILE, ...)\<close>; True iff written\<close>
  | Ack string string              \<comment> \<open>\<^verbatim>\<open>message.reply\<close> / \<^verbatim>\<open>message.channel.send\<close> of the command handler (channel, text)\<close>

datatype attempt_outcome =
    Throws js_error
  | Returns "string list" "raw_proposal list"
      \<comment> \<open>the base58 keys of the realm's governance accounts, and all proposals of the program\<close>

text \<open>A Discord message as the command handler reads it.\<close>

record message =
  author_bot :: bool        \<comment> \<open>\<^verbatim>\<open>message.author.bot\<close>\<close>
  content :: string
  channel_id :: string      \<comment> \<open>\<^verbatim>\<open>message.channel.id\<close>\<close>

text \<open>
  A call of processProposals that has been started and has not settled yet, with its
  arguments: started by startMonitoring (which goes on at line 162 or 163 when it settles),
  or by the \<^verbatim>\<open>!fetch\<close> branch of the command handler.
\<close>

datatype cycle =
    MonitorCycle channel config
  | FetchCycle channel string string

record world =
  config_file :: "config option"            \<comment> \<open>config.json; \<open>None\<close>: no such file\<close>
  proposal_store :: "string list option"    \<comment> \<open>proposal\_store.json; \<open>None\<close>: no such file\<close>
  monitoringTimeout :: "nat option"         \<comment> \<open>the global of line 23; \<open>None\<close>: null\<close>
  timers :: "(nat \<times> config) list"          \<comment> \<open>pending timeouts: handle, and the config the callback captured\<close>
  next_handle :: nat
  channels :: "(string \<times> channel option) list"  \<comment> \<open>what \<^verbatim>\<open>client.channels.fetch\<close> resolves to\<close>
  bad_keys :: "string list"                 \<comment> \<open>strings that \<^verbatim>\<open>new PublicKey\<close> refuses\<close>
  rpc_script :: "attempt_outcome list"      \<comment> \<open>outcomes of the coming upstream reads\<close>
  send_script :: "js_error option list"     \<comment> \<open>outcomes of the coming \<^verbatim>\<open>channel.send\<close> calls\<close>
  fs_script :: "js_error option list"       \<comment> \<open>outcomes of the coming file reads and writes\<close>
  trace :: "event list"
  inFlight :: "cycle list"                  \<comment> \<open>the calls of processProposals that have not settled\<close>

type_synonym 'a io = "world \<Rightarrow> (js_error + 'a) \<times> world"

subsection \<open>Promises: resolve, reject, await, try/catch\<close>

definition resolve :: "'a \<Rightarrow> 'a io" where
  "resolve x w = (Inr x, w)"

definition reject :: "js_error \<Rightarrow> 'a io" where
  "reject e w = (Inl e, w)"

definition await :: "'a io \<Rightarrow> ('a \<Rightarrow> 'b io) \<Rightarrow> 'b io" where
  "await m k w = (case m w of (Inl e, w') \<Rightarrow> (Inl e, w') | (Inr x, w') \<Rightarrow> k x w')"

definition try_catch :: "'a io \<Rightarrow> (js_error \<Rightarrow> 'a io) \<Rightarrow> 'a io" where
  "try_catch m h w = (case m w of (Inl e, w') \<Rightarrow> h e w' | (Inr x, w') \<Rightarrow> (Inr x, w'))"

definition log_event :: "event \<Rightarrow> world \<Rightarrow> world" where
  "log_event e w = w\<lparr>trace := trace w @ [e]\<rparr>"

definition truthy :: "string option \<Rightarrow> bool" where
  "truthy v = (case v of None \<Rightarrow> False | Some s \<Rightarrow> s \<noteq> [])"

definition str :: "string option \<Rightarrow> string" where
  "str v = (case v of None \<Rightarrow> [] | Some s \<Rightarrow> s)"

subsection \<open>Durable store (lines 25-68)\<close>

text \<open>
  Every file-system call (\<^verbatim>\<open>fs.access\<close>, \<^verbatim>\<open>fs.readFile\<close>, \<^verbatim>\<open>fs.writeFile\<close>) takes the
  next outcome of \<open>fs_script\<close>; when the script is used up the call succeeds. An access or
  a read of a file that does not exist rejects in any case. The store file, when present,
  holds a JSON array of strings (an empty file reads as the empty array, line 54).
\<close>

definition fs_call :: "unit io" where
  "fs_call w = (case fs_script w of
       [] \<Rightarrow> (Inr (), w)
     | None # rest \<Rightarrow> (Inr (), w\<lparr>fs_script := rest\<rparr>)
     | Some e # rest \<Rightarrow> (Inl e, w\<lparr>fs_script := rest\<rparr>))"

definition empty_config :: config where
  "empty_config = \<lparr>realmId = None, programId = None, notificationChannelId = None\<rparr>"

definition loadConfig :: "world \<Rightarrow> config \<times> world" where
  "loadConfig w = (case fs_call w of
       (Inl e, w') \<Rightarrow> (empty_config, w')
     | (Inr _, w') \<Rightarrow> (case config_file w' of None \<Rightarrow> (empty_config, w') | Some c \<Rightarrow> (c, w')))"

definition saveConfig :: "config \<Rightarrow> unit io" where
  "saveConfig c w = (case fs_call w of
       (Inl e, w') \<Rightarrow> (Inl e, log_event (WriteConfig c False) w')
     | (Inr _, w') \<Rightarrow> (Inr (), log_event (WriteConfig c True) (w'\<lparr>config_file := Some c\<rparr>)))"

definition write_store :: "string list \<Rightarrow> unit io" where
  "write_store xs w = (case fs_call w of
       (Inl e, w') \<Rightarrow> (Inl e, log_event (WriteStore xs False) w')
     | (Inr _, w') \<Rightarrow> (Inr (), log_event (WriteStore xs True) (w'\<lparr>proposal_store := Some xs\<rparr>)))"

definition read_store :: "string list io" where
  "read_store w = (case fs_call w of
       (Inl e, w') \<Rightarrow> (Inl e, w')
     | (Inr _, w') \<Rightarrow> (case proposal_store w' of
           None \<Rightarrow> (Inl (Error ''ENOENT''), w')
         | Some xs \<Rightarrow> (Inr xs, w')))"

text \<open>\<^verbatim>\<open>fs.access(PROPOSAL_STORE_FILE)\<close>, line 43.\<close>

definition fs_access :: "unit io" where
  "fs_access w = (case fs_call w of
       (Inl e, w') \<Rightarrow> (Inl e, w')
     | (Inr _, w') \<Rightarrow> (case proposal_store w' of
           None \<Rightarrow> (Inl (Error ''ENOENT''), w')
         | Some xs \<Rightarrow> (Inr (), w')))"

text \<open>
  Lines 41-48. The catch is bare: whatever makes the access reject, a missing file or any
  other fault, the store is written anew as the empty array.
\<close>

definition initializeProposalStore :: "unit io" where
  "initializeProposalStore = try_catch fs_access (\<lambda>error. write_store [])"

definition isNewProposal :: "string \<Rightarrow> bool io" where
  "isNewProposal proposalId =
     await initializeProposalStore (\<lambda>_.
     await read_store (\<lambda>storedProposals.
     resolve (proposalId \<notin> set storedProposals)))"

definition saveProposal :: "string \<Rightarrow> unit io" where
  "saveProposal proposalId =
     await initializeProposalStore (\<lambda>_.
     await read_store (\<lambda>storedProposals.
     if proposalId \<notin> set storedProposals
     then write_store (storedProposals @ [proposalId])
     else resolve ()))"

text \<open>The ids the store holds; a missing file holds none.\<close>

definition stored :: "world \<Rightarrow> string list" where
  "stored w = (case proposal_store w of None \<Rightarrow> [] | Some xs \<Rightarrow> xs)"

subsection \<open>Upstream fetcher (lines 70-120)\<close>

definition new_PublicKey :: "string \<Rightarrow> string io" where
  "new_PublicKey s w =
     (if s \<in> set (bad_keys w) then (Inl (Error ''Invalid public key input''), w) else (Inr s, w))"

definition next_rpc :: "world \<Rightarrow> attempt_outcome \<times> world" where
  "next_rpc w = (case rpc_script w of
       [] \<Rightarrow> (Returns [] [], w)
     | r # rest \<Rightarrow> (r, w\<lparr>rpc_script := rest\<rparr>))"

definition to_record :: "raw_proposal \<Rightarrow> proposal" where
  "to_record p =
     \<lparr>proposal_id = publicKey p,
      title = name p,
      description = (case descriptionLink p of
                       None \<Rightarrow> ''No description provided.''
                     | Some d \<Rightarrow> if d = [] then ''No description provided.'' else d),
      state = (case rawState p of [] \<Rightarrow> None | k # _ \<Rightarrow> Some k),
      votingEndTime = (case votingCompletedAt p of
                         None \<Rightarrow> NoEndTimeAvailable
                       | Some t \<Rightarrow> EndsAt (t * 1000))\<rparr>"

text \<open>
  Lines 98-100 can throw: \<^verbatim>\<open>votingCompletedAt.toNumber()\<close> refuses a number of more than
  53 bits, and \<^verbatim>\<open>toISOString()\<close> refuses an instant more than 8.64e15 ms from the epoch.
  \<open>to_record\<close> is the record built when neither happens; \<open>first_error\<close> is the error the
  \<^verbatim>\<open>map\<close> of line 93 stops with, if any.
\<close>

definition conversion_error :: "raw_proposal \<Rightarrow> js_error option" where
  "conversion_error p = (case votingCompletedAt p of
       None \<Rightarrow> None
     | Some t \<Rightarrow>
         if 9007199254740992 \<le> \<bar>t\<bar>
         then Some (Error ''Number can only safely store up to 53 bits'')
         else if 8640000000000000 < \<bar>t * 1000\<bar>
         then Some (Error ''Invalid time value'')
         else None)"

fun first_error :: "raw_proposal list \<Rightarrow> js_error option" where
  "first_error [] = None"
| "first_error (p # ps) =
     (case conversion_error p of Some e \<Rightarrow> Some e | None \<Rightarrow> first_error ps)"

text \<open>
  The try body, lines 78-101. Both reads and the mapping sit in one try block with nothing
  but logging between them, so an exception of the reads is one outcome \<open>Throws\<close>.
\<close>

definition fetch_try :: "string \<Rightarrow> string \<Rightarrow> proposal list io" where
  "fetch_try realm program w =
     (case new_PublicKey realm (log_event (Attempt realm program) w) of
        (Inl e, w1) \<Rightarrow> (Inl e, w1)
      | (Inr _, w1) \<Rightarrow>
          (case next_rpc w1 of
             (Throws err, w2) \<Rightarrow> (Inl err, w2)
           | (Returns governanceAccountPubkeys rawProposals, w2) \<Rightarrow>
               (let filteredProposals =
                      filter (\<lambda>p. governance p \<in> set governanceAccountPubkeys) rawProposals
                in case first_error filteredProposals of
                     Some err \<Rightarrow> (Inl err, w2)
                   | None \<Rightarrow> (Inr (map to_record filteredProposals), w2))))"

definition is_rate_limit :: "js_error \<Rightarrow> bool" where
  "is_rate_limit err = (case err of ResponseError status \<Rightarrow> status = 429 | _ \<Rightarrow> False)"

text \<open>
  The while loop of lines 76-116, by recursion on \<^verbatim>\<open>retries\<close>. What the identifier
  \<^verbatim>\<open>delay\<close> of line 108 stands for is the parameter \<open>dly\<close>.
\<close>

primrec fetch_loop :: "(nat \<Rightarrow> unit io) \<Rightarrow> string \<Rightarrow> string \<Rightarrow> nat \<Rightarrow> nat \<Rightarrow> proposal list io" where
  "fetch_loop dly realm program 0 = (\<lambda>delayTime. resolve [])"
| "fetch_loop dly realm program (Suc retries) = (\<lambda>delayTime.
     try_catch (fetch_try realm program)
       (\<lambda>err. if is_rate_limit err
              then await (dly delayTime) (\<lambda>_. fetch_loop dly realm program retries (delayTime * 2))
              else reject err))"

definition fetchProposals_with :: "(nat \<Rightarrow> unit io) \<Rightarrow> string \<Rightarrow> string \<Rightarrow> proposal list io" where
  "fetchProposals_with dly realm program =
     await (new_PublicKey program) (\<lambda>_. fetch_loop dly realm program 5 500)"

text \<open>
  bot.js calls \<^verbatim>\<open>delay(delayTime)\<close> but neither declares nor imports \<^verbatim>\<open>delay\<close>, and Node.js
  has no global of that name: evaluating the call raises a ReferenceError, inside the
  catch block, so it leaves fetchProposals.
\<close>

definition delay :: "nat \<Rightarrow> unit io" where
  "delay ms = reject (ReferenceError ''delay is not defined'')"

definition fetchProposals :: "string \<Rightarrow> string \<Rightarrow> proposal list io" where
  "fetchProposals = fetchProposals_with delay"

text \<open>
  Modelled from the spec: the wait helper that bot.js calls and does not contain, as the
  retry policy describes it (wait the given number of milliseconds, then go on).
\<close>

definition wait_ms :: "nat \<Rightarrow> unit io" where
  "wait_ms ms w = (Inr (), log_event (Delay ms) w)"

subsection \<open>Notification (lines 122-135)\<close>

definition channel_send :: "channel \<Rightarrow> payload \<Rightarrow> unit io" where
  "channel_send ch m w = (case send_script w of
       [] \<Rightarrow> (Inr (), log_event (Send (channelId ch) m True) w)
     | None # rest \<Rightarrow> (Inr (), log_event (Send (channelId ch) m True) (w\<lparr>send_script := rest\<rparr>))
     | Some e # rest \<Rightarrow> (Inl e, log_event (Send (channelId ch) m False) (w\<lparr>send_script := rest\<rparr>)))"

definition embed_of :: "proposal \<Rightarrow> payload" where
  "embed_of p = Embed (title p) (description p) (state p) (votingEndTime p) 5814783"

definition sendDiscordNotification :: "channel \<Rightarrow> proposal \<Rightarrow> unit io" where
  "sendDiscordNotification ch p = channel_send ch (embed_of p)"

subsection \<open>Dedup and notify pipeline (lines 168-202)\<close>

text \<open>The for-of loop of lines 183-191, carrying \<^verbatim>\<open>newProposalsCount\<close>.\<close>

primrec for_proposals :: "channel \<Rightarrow> proposal list \<Rightarrow> nat \<Rightarrow> nat io" where
  "for_proposals ch [] = (\<lambda>newProposalsCount. resolve newProposalsCount)"
| "for_proposals ch (p # ps) = (\<lambda>newProposalsCount.
     await (isNewProposal (proposal_id p)) (\<lambda>isNew.
       if isNew
       then await (sendDiscordNotification ch p) (\<lambda>_.
            await (saveProposal (proposal_id p)) (\<lambda>_.
            for_proposals ch ps (newProposalsCount + 1)))
       else for_proposals ch ps newProposalsCount))"

text \<open>The try body of processProposals, lines 172-197.\<close>

definition processProposals_try :: "channel \<Rightarrow> string \<Rightarrow> string \<Rightarrow> unit io" where
  "processProposals_try ch realm program =
     await (fetchProposals realm program) (\<lambda>proposals.
       if length proposals = 0
       then channel_send ch NoProposalsFound
       else await (for_proposals ch proposals 0) (\<lambda>newProposalsCount.
              if newProposalsCount > 0
              then channel_send ch (Detected newProposalsCount)
              else resolve ()))"

definition processProposals :: "channel \<Rightarrow> string \<Rightarrow> string \<Rightarrow> unit io" where
  "processProposals ch realm program =
     try_catch (processProposals_try ch realm program)
       (\<lambda>error. channel_send ch ErrorOccurred)"

subsection \<open>Monitor scheduler (lines 137-166)\<close>

definition setTimeout :: "config \<Rightarrow> world \<Rightarrow> nat \<times> world" where
  "setTimeout c w =
     (next_handle w,
      w\<lparr>timers := timers w @ [(next_handle w, c)], next_handle := Suc (next_handle w)\<rparr>)"

definition clearTimeout :: "nat \<Rightarrow> world \<Rightarrow> world" where
  "clearTimeout h w = w\<lparr>timers := filter (\<lambda>t. fst t \<noteq> h) (timers w)\<rparr>"

definition client_channels_fetch :: "string \<Rightarrow> channel option io" where
  "client_channels_fetch cid w = (case map_of (channels w) cid of
       None \<Rightarrow> (Inl (Error ''Unknown Channel''), w)
     | Some c \<Rightarrow> (Inr c, w))"

text \<open>
  startMonitoring is cut at its \<^verbatim>\<open>await processProposals(...)\<close> (line 159).
  \<open>startMonitoring_begin\<close> is lines 139-158: it answers the channel to run the cycle on,
  or \<open>None\<close> when the function returns without running one (also through the catch of
  line 163). \<open>startMonitoring_end\<close> is what follows the await: line 162 when
  processProposals resolved, the catch of line 163 when it rejected.
\<close>

definition startMonitoring_begin :: "config \<Rightarrow> world \<Rightarrow> channel option \<times> world" where
  "startMonitoring_begin c w =
     (if \<not> truthy (realmId c) \<or> \<not> truthy (programId c) \<or> \<not> truthy (notificationChannelId c)
      then (None, w)
      else (case client_channels_fetch (str (notificationChannelId c)) w of
              (Inl error, w1) \<Rightarrow> (None, w1)
            | (Inr None, w1) \<Rightarrow> (None, w1)
            | (Inr (Some ch), w1) \<Rightarrow>
                if \<not> isTextBased ch then (None, w1)
                else (Some ch,
                      (case monitoringTimeout w1 of
                         None \<Rightarrow> w1
                       | Some h \<Rightarrow> clearTimeout h w1))))"

definition startMonitoring_end :: "config \<Rightarrow> js_error + unit \<Rightarrow> world \<Rightarrow> world" where
  "startMonitoring_end c outcome w = (case outcome of
       Inl error \<Rightarrow> w
     | Inr _ \<Rightarrow> (case setTimeout c w of (h, w') \<Rightarrow> w'\<lparr>monitoringTimeout := Some h\<rparr>))"

text \<open>The cycle of a monitor run: lines 159-165.\<close>

definition monitor_cycle :: "channel \<Rightarrow> config \<Rightarrow> world \<Rightarrow> world" where
  "monitor_cycle ch c w =
     (case processProposals ch (str (realmId c)) (str (programId c)) w of
        (outcome, w') \<Rightarrow> startMonitoring_end c outcome w')"

text \<open>startMonitoring awaited to its end, nothing else running in between.\<close>

definition startMonitoring :: "config \<Rightarrow> world \<Rightarrow> world" where
  "startMonitoring c w = (case startMonitoring_begin c w of
       (None, w1) \<Rightarrow> w1
     | (Some ch, w1) \<Rightarrow> monitor_cycle ch c w1)"

text \<open>
  A call \<^verbatim>\<open>startMonitoring(config)\<close> that is not awaited (lines 225, 236, 162, 258): the
  function runs up to its call of processProposals, which is then in flight.
\<close>

definition startMonitoring_async :: "config \<Rightarrow> world \<Rightarrow> world" where
  "startMonitoring_async c w = (case startMonitoring_begin c w of
       (None, w1) \<Rightarrow> w1
     | (Some ch, w1) \<Rightarrow> w1\<lparr>inFlight := inFlight w1 @ [MonitorCycle ch c]\<rparr>)"

subsection \<open>Command handler (lines 204-252)\<close>

text \<open>\<^verbatim>\<open>content.split(" ")\<close>: empty pieces are kept.\<close>

fun split_sp :: "string \<Rightarrow> string list" where
  "split_sp [] = [[]]"
| "split_sp (c # cs) =
     (if c = CHR '' '' then [] # split_sp cs
      else (case split_sp cs of [] \<Rightarrow> [[c]] | x # xs \<Rightarrow> (c # x) # xs))"

text \<open>
  Each branch answers \<open>None\<close> when the handler returns inside it, and otherwise the
  config object as the branch leaves it. A rejected promise of the handler is \<open>Inl\<close>.
\<close>

definition setup_branch :: "message \<Rightarrow> config \<Rightarrow> config option io" where
  "setup_branch m c w =
     (if prefix ''!setup'' (content m)
      then (let args = split_sp (content m) in
            if length args < 3
            then (Inr None,
                  log_event (Ack (channel_id m) ''Usage: `!setup <REALM_ID> <PROGRAM_ID>`'') w)
            else (let c' = c\<lparr>realmId := Some (args ! 1), programId := Some (args ! 2)\<rparr> in
                  case saveConfig c' w of
                    (Inl e, w1) \<Rightarrow> (Inl e, w1)
                  | (Inr _, w1) \<Rightarrow>
                      (let w2 = log_event (Ack (channel_id m)
                                  ''Setup complete. Run `!setchannel` to set the notification channel.'') w1
                       in (Inr (Some c'),
                           if truthy (notificationChannelId c')
                           then startMonitoring_async c' w2 else w2))))
      else (Inr (Some c), w))"

definition setchannel_branch :: "message \<Rightarrow> config \<Rightarrow> config option io" where
  "setchannel_branch m c w =
     (if prefix ''!setchannel'' (content m)
      then (let c' = c\<lparr>notificationChannelId := Some (channel_id m)\<rparr> in
            case saveConfig c' w of
              (Inl e, w1) \<Rightarrow> (Inl e, w1)
            | (Inr _, w1) \<Rightarrow>
                (let w2 = log_event (Ack (channel_id m) ''Notification channel set.'') w1
                 in (Inr (Some c'),
                     if truthy (realmId c') \<and> truthy (programId c')
                     then startMonitoring_async c' w2 else w2)))
      else (Inr (Some c), w))"

definition fetch_branch :: "message \<Rightarrow> config \<Rightarrow> unit io" where
  "fetch_branch m c w =
     (if content m = ''!fetch''
      then (if \<not> truthy (realmId c) \<or> \<not> truthy (programId c) \<or> \<not> truthy (notificationChannelId c)
            then (Inr (),
                  log_event (Ack (channel_id m)
                    ''Bot is not fully configured. Use `!setup` and `!setchannel` first.'') w)
            else (case client_channels_fetch (str (notificationChannelId c)) w of
                    (Inr (Some ch), w1) \<Rightarrow>
                      (Inr (),
                       w1\<lparr>inFlight := inFlight w1 @
                            [FetchCycle ch (str (realmId c)) (str (programId c))]\<rparr>)
                  | (_, w1) \<Rightarrow>
                      (Inr (),
                       log_event (Ack (channel_id m)
                         ''Notification channel is invalid. Please reconfigure with `!setchannel`.'') w1)))
      else (Inr (), w))"

text \<open>
  The handler up to the point where it is suspended or done: a processProposals it awaits
  (line 250) is left in flight.
\<close>

definition messageCreate :: "message \<Rightarrow> unit io" where
  "messageCreate m w =
     (if author_bot m then (Inr (), w)
      else (case loadConfig w of (c, w1) \<Rightarrow>
              (case setup_branch m c w1 of
                 (Inl e, w2) \<Rightarrow> (Inl e, w2)
               | (Inr None, w2) \<Rightarrow> (Inr (), w2)
               | (Inr (Some c2), w2) \<Rightarrow>
                   (case setchannel_branch m c2 w2 of
                      (Inl e, w3) \<Rightarrow> (Inl e, w3)
                    | (Inr None, w3) \<Rightarrow> (Inr (), w3)
                    | (Inr (Some c3), w3) \<Rightarrow> fetch_branch m c3 w3))))"

subsection \<open>The event loop\<close>

text \<open>
  Node.js runs one callback at a time, and a callback gives way only at an await. The
  steps below are the callbacks of bot.js at the grain of whole cycles: a command arrives,
  a timer fires, or a call of processProposals that is in flight runs to its end (its reads
  and sends come back) and the function that awaits it goes on.
\<close>

datatype loop_event =
    MessageCreate message
  | TimerFires nat
  | Settles nat

definition settle :: "cycle \<Rightarrow> world \<Rightarrow> world" where
  "settle cy w = (case cy of
       MonitorCycle ch c \<Rightarrow> monitor_cycle ch c w
     | FetchCycle ch realm program \<Rightarrow> snd (processProposals ch realm program w))"

fun loop_step :: "loop_event \<Rightarrow> world \<Rightarrow> world" where
  "loop_step (MessageCreate m) w = snd (messageCreate m w)"
| "loop_step (TimerFires h) w = (case map_of (timers w) h of
       None \<Rightarrow> w
     | Some c \<Rightarrow> startMonitoring_async c (w\<lparr>timers := filter (\<lambda>t. fst t \<noteq> h) (timers w)\<rparr>))"
| "loop_step (Settles i) w =
     (if i < length (inFlight w)
      then settle (inFlight w ! i) (w\<lparr>inFlight := take i (inFlight w) @ drop (Suc i) (inFlight w)\<rparr>)
      else w)"

text \<open>The ready handler, lines 255-259.\<close>

definition ready :: "world \<Rightarrow> world" where
  "ready w = (case loadConfig w of (c, w1) \<Rightarrow> startMonitoring_async c w1)"

subsection \<open>Reading a run\<close>

text \<open>
  The records a cycle started in \<open>w\<close> fetches (none when the fetch fails), and, of a list
  of records, the ids of those whose embed a trace shows as delivered on a channel.
\<close>

definition fetched :: "string \<Rightarrow> string \<Rightarrow> world \<Rightarrow> proposal list" where
  "fetched realm program w =
     (case fst (fetchProposals realm program w) of Inl e \<Rightarrow> [] | Inr ps \<Rightarrow> ps)"




text \<open>
  Two kinds of trace entries: a per-record notification that was delivered, and a summary
  message ("Detected n new proposals.").
\<close>

fun is_notification :: "event \<Rightarrow> bool" where
  "is_notification (Send c (Embed t d s v col) ok) = ok"
| "is_notification e = False"

fun is_summary :: "event \<Rightarrow> bool" where
  "is_summary (Send c (Detected n) ok) = True"
| "is_summary e = False"

subsection \<open>Example worlds\<close>

text \<open>
  A quiet world: no files yet, one text channel \<open>general\<close>, nothing scheduled, and surroundings
  that answer every call successfully. The examples below change single fields of it.
\<close>

definition general :: channel where
  "general = \<lparr>channelId = ''general'', isTextBased = True\<rparr>"

definition quiet :: world where
  "quiet = \<lparr>config_file = None, proposal_store = None, monitoringTimeout = None,
            timers = [], next_handle = 0, channels = [(''general'', Some general)],
            bad_keys = [], rpc_script = [], send_script = [], fs_script = [],
            trace = [], inFlight = []\<rparr>"

definition dao :: config where
  "dao = \<lparr>realmId = Some ''realm'', programId = Some ''program'',
          notificationChannelId = Some ''general''\<rparr>"

definition raw :: "string \<Rightarrow> string \<Rightarrow> raw_proposal" where
  "raw key gov = \<lparr>publicKey = key, governance = gov, name = ''Proposal '' @ key,
                   descriptionLink = None, rawState = [''voting''], votingCompletedAt = None\<rparr>"

text \<open>
  One new proposal upstream, and a disk that fails at the sixth file call of the cycle:
  the write of saveProposal, after isNewProposal looked for the store, created it and read
  it, and saveProposal found it and read it.
\<close>

definition interrupted_mark :: world where
  "interrupted_mark =
     quiet\<lparr>rpc_script := [Returns [''G1''] [raw ''P1'' ''G1'']],
           fs_script := [None, None, None, None, None, Some (Error ''EIO'')]\<rparr>"

text \<open>
  A store that holds P1 and P2, on a disk whose next call fails once (any fault but a
  missing file: the file is there).
\<close>

definition access_fails_once :: world where
  "access_fails_once =
     quiet\<lparr>proposal_store := Some [''P1'', ''P2''], fs_script := [Some (Error ''EIO'')]\<rparr>"

text \<open>The realm of the spec's example: governance accounts G1 and G2, proposals under G1, G2, G3.\<close>

definition three_proposals :: world where
  "three_proposals =
     quiet\<lparr>rpc_script := [Returns [''G1'', ''G2'']
                             [raw ''P1'' ''G1'', raw ''P2'' ''G2'', raw ''P3'' ''G3'']]\<rparr>"

text \<open>An upstream that answers 429 Too Many Requests five times in a row.\<close>

definition too_many_requests :: attempt_outcome where
  "too_many_requests = Throws (ResponseError 429)"

definition rate_limited :: world where
  "rate_limited =
     quiet\<lparr>rpc_script := [too_many_requests, too_many_requests, too_many_requests,
                           too_many_requests, too_many_requests]\<rparr>"

text \<open>An upstream whose next answer is a server error.\<close>

definition upstream_down :: world where
  "upstream_down = quiet\<lparr>rpc_script := [Throws (ResponseError 500)]\<rparr>"

text \<open>Upstream answers, but every proposal of the program belongs to another realm.\<close>

definition other_realm_only :: world where
  "other_realm_only = quiet\<lparr>rpc_script := [Returns [''G1''] [raw ''P3'' ''G3'']]\<rparr>"


text \<open>Two worlds that differ in how many records a cycle checks, all of them already known.\<close>

definition one_known :: world where
  "one_known =
     quiet\<lparr>proposal_store := Some [''P1''],
           rpc_script := [Returns [''G1''] [raw ''P1'' ''G1'']]\<rparr>"

definition two_known :: world where
  "two_known =
     quiet\<lparr>proposal_store := Some [''P1'', ''P2''],
           rpc_script := [Returns [''G1''] [raw ''P1'' ''G1'', raw ''P2'' ''G1'']]\<rparr>"

text \<open>A bot that has been set up (config.json holds \<open>dao\<close>) and has notified P1.\<close>

definition configured_seen :: world where
  "configured_seen = quiet\<lparr>config_file := Some dao, proposal_store := Some [''P1'']\<rparr>"

text \<open>A command typed by a user in the channel \<open>general\<close>.\<close>

definition command :: "string \<Rightarrow> message" where
  "command text = \<lparr>author_bot = False, content = text, channel_id = ''general''\<rparr>"

section \<open>Properties\<close>

subsection \<open>What each call does to the world\<close>

lemma fetch_loop_5:
  "fetch_loop dly realm program 5 = fetch_loop dly realm program (Suc (Suc (Suc (Suc (Suc 0)))))"
  by (simp add: eval_nat_numeral)

lemma fetchProposals_unfold:
  "fetchProposals realm program w =
     (if program \<in> set (bad_keys w) then (Inl (Error ''Invalid public key input''), w)
      else (case fetch_try realm program w of
              (Inl err, w1) \<Rightarrow>
                (Inl (if is_rate_limit err then ReferenceError ''delay is not defined'' else err), w1)
            | (Inr ps, w1) \<Rightarrow> (Inr ps, w1)))"
  by (simp add: fetchProposals_def fetchProposals_with_def fetch_loop_5 await_def
      new_PublicKey_def try_catch_def delay_def reject_def split: prod.splits sum.splits)

lemma fetch_try_effect:
  assumes "fetch_try realm program w = (r, w')"
  shows "trace w' = trace w @ [Attempt realm program]"
    and "proposal_store w' = proposal_store w"
    and "send_script w' = send_script w"
    and "fs_script w' = fs_script w"
    and "timers w' = timers w"
    and "monitoringTimeout w' = monitoringTimeout w"
    and "next_handle w' = next_handle w"
  using assms
  by (auto simp: fetch_try_def new_PublicKey_def next_rpc_def log_event_def Let_def
      split: if_splits list.splits attempt_outcome.splits prod.splits option.splits)

lemma fetchProposals_effect:
  assumes "fetchProposals realm program w = (r, w')"
  shows "(trace w' = trace w \<and> isl r) \<or> trace w' = trace w @ [Attempt realm program]"
    and "proposal_store w' = proposal_store w"
    and "send_script w' = send_script w"
    and "fs_script w' = fs_script w"
    and "timers w' = timers w"
    and "monitoringTimeout w' = monitoringTimeout w"
    and "next_handle w' = next_handle w"
  using assms fetch_try_effect [of realm program w]
  by (auto simp: fetchProposals_unfold split: if_splits prod.splits sum.splits)

lemma channel_send_effect:
  assumes "channel_send ch m w = (r, w')"
  shows "trace w' = trace w @ [Send (channelId ch) m (\<not> isl r)]"
    and "proposal_store w' = proposal_store w"
    and "fs_script w' = fs_script w"
    and "timers w' = timers w"
    and "monitoringTimeout w' = monitoringTimeout w"
    and "next_handle w' = next_handle w"
    and "r = Inr () \<longleftrightarrow> (send_script w = [] \<or> hd (send_script w) = None)"
  using assms
  by (auto simp: channel_send_def log_event_def split: list.splits option.splits)

lemma fs_call_effect:
  assumes "fs_call w = (r, w')"
  shows "trace w' = trace w" and "proposal_store w' = proposal_store w"
    and "send_script w' = send_script w" and "timers w' = timers w"
    and "monitoringTimeout w' = monitoringTimeout w" and "next_handle w' = next_handle w"
    and "r = Inr () \<longleftrightarrow> (fs_script w = [] \<or> hd (fs_script w) = None)"
  using assms by (auto simp: fs_call_def split: list.splits option.splits)

lemma fs_access_effect:
  assumes "fs_access w = (r, w')"
  shows "trace w' = trace w" and "proposal_store w' = proposal_store w"
    and "send_script w' = send_script w" and "timers w' = timers w"
    and "monitoringTimeout w' = monitoringTimeout w" and "next_handle w' = next_handle w"
    and "r = Inr () \<longleftrightarrow>
           (fs_script w = [] \<or> hd (fs_script w) = None) \<and> proposal_store w \<noteq> None"
proof -
  obtain r0 w0 where 0: "fs_call w = (r0, w0)" by fastforce
  from assms 0 have "w' = w0"
    by (auto simp: fs_access_def split: sum.splits option.splits)
  with fs_call_effect [OF 0] assms 0
  show "trace w' = trace w" and "proposal_store w' = proposal_store w"
    and "send_script w' = send_script w" and "timers w' = timers w"
    and "monitoringTimeout w' = monitoringTimeout w" and "next_handle w' = next_handle w"
    and "r = Inr () \<longleftrightarrow>
           (fs_script w = [] \<or> hd (fs_script w) = None) \<and> proposal_store w \<noteq> None"
    by (auto simp: fs_access_def split: sum.splits option.splits)
qed

lemma write_store_effect:
  assumes "write_store xs w = (r, w')"
  shows "trace w' = trace w @ [WriteStore xs (\<not> isl r)]"
    and "stored w' = (if isl r then stored w else xs)"
    and "send_script w' = send_script w" and "timers w' = timers w"
    and "monitoringTimeout w' = monitoringTimeout w" and "next_handle w' = next_handle w"
    and "\<not> isl r \<longrightarrow> proposal_store w' = Some xs"
proof -
  obtain r0 w0 where 0: "fs_call w = (r0, w0)" by fastforce
  with fs_call_effect [OF 0] assms
  show "trace w' = trace w @ [WriteStore xs (\<not> isl r)]"
    and "stored w' = (if isl r then stored w else xs)"
    and "send_script w' = send_script w" and "timers w' = timers w"
    and "monitoringTimeout w' = monitoringTimeout w" and "next_handle w' = next_handle w"
    and "\<not> isl r \<longrightarrow> proposal_store w' = Some xs"
    by (auto simp: write_store_def log_event_def stored_def split: sum.splits)
qed

lemma read_store_effect:
  assumes "read_store w = (r, w')"
  shows "trace w' = trace w" and "proposal_store w' = proposal_store w"
    and "send_script w' = send_script w" and "timers w' = timers w"
    and "monitoringTimeout w' = monitoringTimeout w" and "next_handle w' = next_handle w"
    and "\<forall>xs. r = Inr xs \<longrightarrow> xs = stored w"
proof -
  obtain r0 w0 where 0: "fs_call w = (r0, w0)" by fastforce
  with fs_call_effect [OF 0] assms
  show "trace w' = trace w" and "proposal_store w' = proposal_store w"
    and "send_script w' = send_script w" and "timers w' = timers w"
    and "monitoringTimeout w' = monitoringTimeout w" and "next_handle w' = next_handle w"
    and "\<forall>xs. r = Inr xs \<longrightarrow> xs = stored w"
    by (auto simp: read_store_def stored_def split: sum.splits option.splits)
qed

lemma initializeProposalStore_effect:
  assumes "initializeProposalStore w = (r, w')"
  shows "\<exists>tr. trace w' = trace w @ tr \<and> set tr \<subseteq> {WriteStore [] True, WriteStore [] False}
    \<and> (stored w' = stored w \<or> stored w' = [])
    \<and> send_script w' = send_script w
    \<and> timers w' = timers w \<and> monitoringTimeout w' = monitoringTimeout w
    \<and> next_handle w' = next_handle w"
proof -
  obtain r0 w0 where 0: "fs_access w = (r0, w0)" by fastforce
  note a = fs_access_effect [OF 0]
  show ?thesis
  proof (cases r0)
    case (Inr u)
    with assms 0 have "w' = w0" by (simp add: initializeProposalStore_def try_catch_def)
    with a show ?thesis by (simp add: stored_def)
  next
    case (Inl e)
    with assms 0 have 1: "write_store [] w0 = (r, w')"
      by (simp add: initializeProposalStore_def try_catch_def)
    from write_store_effect [OF 1] a show ?thesis by (auto simp: stored_def)
  qed
qed

lemma initializeProposalStore_accessible:
  assumes "fs_script w = [] \<or> hd (fs_script w) = None" and "proposal_store w \<noteq> None"
  shows "initializeProposalStore w = (Inr (), w\<lparr>fs_script := tl (fs_script w)\<rparr>)"
  using assms
  by (auto simp: initializeProposalStore_def try_catch_def fs_access_def fs_call_def
      split: list.splits option.splits)

lemma isNewProposal_effect:
  assumes "isNewProposal pid w = (r, w')"
  shows "\<exists>tr. trace w' = trace w @ tr \<and> set tr \<subseteq> {WriteStore [] True, WriteStore [] False}
    \<and> set (stored w') \<subseteq> set (stored w) \<and> send_script w' = send_script w
    \<and> timers w' = timers w \<and> monitoringTimeout w' = monitoringTimeout w \<and> next_handle w' = next_handle w
    \<and> (\<forall>b. r = Inr b \<longrightarrow> b = (pid \<notin> set (stored w')))"
proof -
  obtain r1 w1 where 1: "initializeProposalStore w = (r1, w1)" by fastforce
  from initializeProposalStore_effect [OF 1] obtain tr where
    i: "trace w1 = trace w @ tr" "set tr \<subseteq> {WriteStore [] True, WriteStore [] False}"
       "stored w1 = stored w \<or> stored w1 = []" "send_script w1 = send_script w"
       "timers w1 = timers w" "monitoringTimeout w1 = monitoringTimeout w"
       "next_handle w1 = next_handle w" by blast
  show ?thesis
  proof (cases r1)
    case (Inl e)
    with assms 1 have "w' = w1" "r = Inl e" by (simp_all add: isNewProposal_def await_def)
    with i show ?thesis by auto
  next
    case (Inr u)
    obtain r2 w2 where 2: "read_store w1 = (r2, w2)" by fastforce
    note rd = read_store_effect [OF 2]
    from rd(2) have s: "stored w2 = stored w1" by (simp add: stored_def)
    from Inr assms 1 2 have w': "w' = w2"
      by (auto simp: isNewProposal_def await_def resolve_def split: sum.splits)
    from Inr assms 1 2 rd(7) s have "\<forall>b. r = Inr b \<longrightarrow> b = (pid \<notin> set (stored w2))"
      by (auto simp: isNewProposal_def await_def resolve_def split: sum.splits)
    with w' i rd s show ?thesis by auto
  qed
qed

lemma saveProposal_effect:
  assumes "saveProposal pid w = (r, w')"
  shows "\<exists>tr. trace w' = trace w @ tr
    \<and> (\<forall>e \<in> set tr. \<exists>xs ok. e = WriteStore xs ok \<and> set xs \<subseteq> insert pid (set (stored w)))
    \<and> set (stored w') \<subseteq> insert pid (set (stored w)) \<and> send_script w' = send_script w
    \<and> timers w' = timers w \<and> monitoringTimeout w' = monitoringTimeout w \<and> next_handle w' = next_handle w
    \<and> (distinct (stored w) \<longrightarrow> distinct (stored w'))"
proof -
  obtain r1 w1 where 1: "initializeProposalStore w = (r1, w1)" by fastforce
  from initializeProposalStore_effect [OF 1] obtain tr where
    i: "trace w1 = trace w @ tr" "set tr \<subseteq> {WriteStore [] True, WriteStore [] False}"
       "stored w1 = stored w \<or> stored w1 = []" "send_script w1 = send_script w"
       "timers w1 = timers w" "monitoringTimeout w1 = monitoringTimeout w"
       "next_handle w1 = next_handle w" by blast
  have tr: "\<forall>e \<in> set tr. \<exists>xs ok. e = WriteStore xs ok \<and> set xs \<subseteq> insert pid (set (stored w))"
  proof
    fix e
    assume "e \<in> set tr"
    with i(2) have "e = WriteStore [] True \<or> e = WriteStore [] False" by auto
    then show "\<exists>xs ok. e = WriteStore xs ok \<and> set xs \<subseteq> insert pid (set (stored w))" by auto
  qed
  show ?thesis
  proof (cases r1)
    case (Inl e)
    with assms 1 have "w' = w1" by (simp add: saveProposal_def await_def)
    with i tr show ?thesis by auto
  next
    case (Inr u)
    obtain r2 w2 where 2: "read_store w1 = (r2, w2)" by fastforce
    note rd = read_store_effect [OF 2]
    from rd(2) have s: "stored w2 = stored w1" by (simp add: stored_def)
    show ?thesis
    proof (cases r2)
      case (Inl e)
      with Inr assms 1 2 have "w' = w2" by (simp add: saveProposal_def await_def)
      with i tr rd s show ?thesis by auto
    next
      case xs: (Inr xs)
      with rd(7) have xs': "xs = stored w1" using s by simp
      show ?thesis
      proof (cases "pid \<in> set xs")
        case True
        with xs Inr assms 1 2 have "w' = w2"
          by (simp add: saveProposal_def await_def resolve_def)
        with i tr rd s show ?thesis by auto
      next
        case False
        with xs Inr assms 1 2 have 3: "write_store (xs @ [pid]) w2 = (r, w')"
          by (simp add: saveProposal_def await_def)
        note wr = write_store_effect [OF 3]
        have "set (xs @ [pid]) \<subseteq> insert pid (set (stored w))"
          using xs' i(3) by auto
        moreover have "distinct (stored w) \<longrightarrow> distinct (xs @ [pid])"
          using xs' i(3) False by auto
        ultimately show ?thesis using wr i tr rd s xs'
          by (auto split: if_splits)
      qed
    qed
  qed
qed

lemmas cbv = prod.case_cong_weak sum.case_cong_weak list.case_cong_weak option.case_cong_weak

lemmas run_defs = processProposals_def try_catch_def processProposals_try_def await_def
  fetchProposals_unfold reject_def resolve_def
  fetch_try_def new_PublicKey_def next_rpc_def log_event_def to_record_def is_rate_limit_def
  channel_send_def embed_of_def sendDiscordNotification_def
  isNewProposal_def saveProposal_def initializeProposalStore_def fs_access_def read_store_def
  write_store_def fs_call_def conversion_error_def Let_def

subsection \<open>The invariant of the notify loop\<close>










subsection \<open>A cycle leaves the scheduler alone, and counts what it delivers\<close>







lemma for_proposals_count:
  "for_proposals ch qs n w = (Inr m, w') \<Longrightarrow>
     \<exists>tr. trace w' = trace w @ tr \<and> m = n + length (filter is_notification tr)
        \<and> filter is_summary tr = []"
proof (induction qs arbitrary: n w)
  case Nil
  then show ?case by (simp add: resolve_def)
next
  case (Cons p qs)
  obtain r1 w1 where 1: "isNewProposal (proposal_id p) w = (r1, w1)" by fastforce
  from isNewProposal_effect [OF 1] obtain tr1 where
    t1: "trace w1 = trace w @ tr1" and e1: "set tr1 \<subseteq> {WriteStore [] True, WriteStore [] False}"
    by blast
  have f1: "filter is_notification tr1 = []" "filter is_summary tr1 = []"
    using e1 by (auto simp: filter_empty_conv)
  from Cons.prems 1 obtain isNew where r1: "r1 = Inr isNew"
    by (cases r1) (auto simp: await_def)
  show ?case
  proof (cases isNew)
    case False
    with r1 Cons.prems 1 have "for_proposals ch qs n w1 = (Inr m, w')" by (simp add: await_def)
    from Cons.IH [OF this] obtain tr where "trace w' = trace w1 @ tr"
      "m = n + length (filter is_notification tr)" "filter is_summary tr = []" by blast
    with t1 f1 show ?thesis by auto
  next
    case True
    obtain r2 w2 where 2: "channel_send ch (embed_of p) w1 = (r2, w2)" by fastforce
    with True r1 Cons.prems 1 have r2: "r2 = Inr ()"
      by (cases r2) (auto simp: await_def sendDiscordNotification_def)
    have t2: "trace w2 = trace w1 @ [Send (channelId ch) (embed_of p) True]"
      using channel_send_effect(1) [OF 2] r2 by simp
    obtain r3 w3 where 3: "saveProposal (proposal_id p) w2 = (r3, w3)" by fastforce
    from saveProposal_effect [OF 3] obtain tr3 where
      t3: "trace w3 = trace w2 @ tr3" and e3: "\<forall>e \<in> set tr3. \<exists>xs ok. e = WriteStore xs ok" by blast
    have f3: "filter is_notification tr3 = []" "filter is_summary tr3 = []"
      using e3 by (auto simp: filter_empty_conv)
    from True r1 r2 Cons.prems 1 2 3 have "for_proposals ch qs (n + 1) w3 = (Inr m, w')"
      by (cases r3) (auto simp: await_def sendDiscordNotification_def)
    from Cons.IH [OF this] obtain tr where "trace w' = trace w3 @ tr"
      "m = n + 1 + length (filter is_notification tr)" "filter is_summary tr = []" by blast
    with t1 t2 t3 f1 f3 show ?thesis by (auto simp: embed_of_def)
  qed
qed

lemmas sched_defs = startMonitoring_def startMonitoring_begin_def startMonitoring_end_def
  monitor_cycle_def setTimeout_def clearTimeout_def client_channels_fetch_def truthy_def str_def

lemmas handler_defs = messageCreate_def loadConfig_def empty_config_def saveConfig_def setup_branch_def
  setchannel_branch_def fetch_branch_def fs_call_def log_event_def startMonitoring_async_def
  startMonitoring_begin_def client_channels_fetch_def clearTimeout_def truthy_def str_def

subsection \<open>The event loop agrees with the awaited call\<close>

text \<open>
  With nothing else in flight, starting startMonitoring and letting its cycle settle is
  startMonitoring awaited to its end.
\<close>

lemma settled_async_is_startMonitoring:
  assumes "inFlight w = []" and "fst (startMonitoring_begin c w) \<noteq> None"
  shows "loop_step (Settles 0) (startMonitoring_async c w) = startMonitoring c w"
proof -
  obtain ch w1 where b: "startMonitoring_begin c w = (Some ch, w1)"
    using assms(2) by (cases "startMonitoring_begin c w") auto
  then have nil: "inFlight w1 = []"
    using assms(1)
    by (auto simp: startMonitoring_begin_def client_channels_fetch_def clearTimeout_def
        split: if_splits option.splits prod.splits sum.splits)
  then have same: "w1\<lparr>inFlight := []\<rparr> = w1" by simp
  have "loop_step (Settles 0) (startMonitoring_async c w)
          = monitor_cycle ch c (w1\<lparr>inFlight := []\<rparr>)"
    using b nil by (simp add: startMonitoring_async_def settle_def)
  also have "\<dots> = startMonitoring c w"
    using b by (simp only: same startMonitoring_def prod.case option.case)
  finally show ?thesis .
qed

subsection \<open>Durable store\<close>

text \<open>
  Claim C10 (on the code as it is). The store holds P1 and P2, and the access of line 43
  rejects for a reason other than a missing file. The bare catch of line 44 takes that for
  "store not found" and writes the empty array over the store; saveProposal then reads the
  empty list, does not find P1 in it, and writes a second time. An id that was already
  known has caused two writes, and the store has lost P2.
\<close>

theorem saveProposal_after_failed_access:
  "stored access_fails_once = [''P1'', ''P2'']
   \<and> saveProposal ''P1'' access_fails_once
     = (Inr (),
        quiet\<lparr>proposal_store := Some [''P1''],
              trace := [WriteStore [] True, WriteStore [''P1''] True]\<rparr>)"
  by (simp add: saveProposal_def await_def try_catch_def resolve_def initializeProposalStore_def
      fs_access_def read_store_def write_store_def fs_call_def log_event_def stored_def
      access_fails_once_def quiet_def)

text \<open>
  What holds of the claim: when the access of the store file succeeds, saveProposal of an
  id the store holds writes nothing and leaves the store file as it was; and in every
  case, also through the bare catch, a duplicate-free store stays duplicate-free.
\<close>

lemma saveProposal_known_when_accessible:
  assumes "proposalId \<in> set (stored w)"
    and "fs_script w = [] \<or> hd (fs_script w) = None"
  shows "proposal_store (snd (saveProposal proposalId w)) = proposal_store w"
    and "trace (snd (saveProposal proposalId w)) = trace w"
proof -
  from assms(1) have ex: "proposal_store w \<noteq> None"
    by (cases "proposal_store w") (simp_all add: stored_def)
  let ?w1 = "w\<lparr>fs_script := tl (fs_script w)\<rparr>"
  have 1: "initializeProposalStore w = (Inr (), ?w1)"
    by (rule initializeProposalStore_accessible [OF assms(2) ex])
  obtain r2 w2 where 2: "read_store ?w1 = (r2, w2)" by fastforce
  note rd = read_store_effect [OF 2]
  have "stored ?w1 = stored w" by (simp add: stored_def)
  have "snd (saveProposal proposalId w) = w2"
  proof (cases r2)
    case (Inl e)
    with 1 2 show ?thesis by (simp add: saveProposal_def await_def)
  next
    case (Inr xs)
    with rd(7) \<open>stored ?w1 = stored w\<close> assms(1) have "proposalId \<in> set xs" by simp
    with Inr 1 2 show ?thesis by (simp add: saveProposal_def await_def resolve_def)
  qed
  with rd(1,2) show "proposal_store (snd (saveProposal proposalId w)) = proposal_store w"
    and "trace (snd (saveProposal proposalId w)) = trace w" by simp_all
qed

lemma saveProposal_keeps_distinct:
  "distinct (stored w) \<Longrightarrow> distinct (stored (snd (saveProposal proposalId w)))"
  using saveProposal_effect [of proposalId w "fst (saveProposal proposalId w)"
      "snd (saveProposal proposalId w)"] by auto

subsection \<open>Upstream fetcher\<close>

text \<open>
  Claim C7. Realm scoping: whenever fetchProposals succeeds, the upstream answered the
  attempt with the realm's governance accounts and the program's proposals, and the
  sequence returned is, in order, exactly the proposals whose governance account is among
  those accounts, each mapped to its record; so the ids returned are exactly the keys of
  the proposals kept, and a proposal under any other governance account is left out.
\<close>

theorem realm_scoping:
  assumes "fetchProposals realm program w = (Inr ps, w')"
  shows "\<exists>accounts proposals.
           fst (next_rpc w) = Returns accounts proposals
         \<and> ps = map to_record (filter (\<lambda>p. governance p \<in> set accounts) proposals)
         \<and> map proposal_id ps = map publicKey (filter (\<lambda>p. governance p \<in> set accounts) proposals)"
  using assms
  by (auto simp: fetchProposals_unfold fetch_try_def new_PublicKey_def next_rpc_def log_event_def
      to_record_def comp_def Let_def
      split: if_splits list.splits attempt_outcome.splits prod.splits sum.splits option.splits)

theorem realm_scoping_witness:
  "fst (fetchProposals ''realm'' ''program'' three_proposals)
     = Inr [to_record (raw ''P1'' ''G1''), to_record (raw ''P2'' ''G2'')]
   \<and> (\<exists>accounts proposals.
         fst (next_rpc three_proposals) = Returns accounts proposals
       \<and> [to_record (raw ''P1'' ''G1''), to_record (raw ''P2'' ''G2'')]
           = map to_record (filter (\<lambda>p. governance p \<in> set accounts) proposals)
       \<and> map proposal_id [to_record (raw ''P1'' ''G1''), to_record (raw ''P2'' ''G2'')]
           = map publicKey (filter (\<lambda>p. governance p \<in> set accounts) proposals))"
proof -
  have run: "fetchProposals ''realm'' ''program'' three_proposals
      = (Inr [to_record (raw ''P1'' ''G1''), to_record (raw ''P2'' ''G2'')],
         three_proposals\<lparr>rpc_script := [], trace := [Attempt ''realm'' ''program'']\<rparr>)"
    by (simp add: fetchProposals_unfold fetch_try_def new_PublicKey_def next_rpc_def
        log_event_def conversion_error_def three_proposals_def quiet_def raw_def)
  from realm_scoping [OF run] run show ?thesis by simp
qed

text \<open>
  Claim C6. A fetch attempt that fails with an error other than the rate limit (429) ends
  the fetch at once with that same error: whatever the retry budget left and whatever the
  wait helper would do, the loop returns the error after this one attempt, the trace gains
  the attempt and nothing else (no wait, no second attempt), and fetchProposals as a whole
  rejects with the error.
\<close>

theorem non_rate_limit_aborts:
  assumes "fetch_try realm program w = (Inl err, w1)" and "\<not> is_rate_limit err"
  shows "fetch_loop dly realm program (Suc retries) delayTime w = (Inl err, w1)
       \<and> trace w1 = trace w @ [Attempt realm program]
       \<and> (program \<notin> set (bad_keys w) \<longrightarrow> fetchProposals realm program w = (Inl err, w1))"
  using assms fetch_try_effect(1) [OF assms(1)]
  by (simp add: try_catch_def reject_def fetchProposals_unfold)

theorem non_rate_limit_aborts_witness:
  "fetch_try ''realm'' ''program'' upstream_down
     = (Inl (ResponseError 500),
        upstream_down\<lparr>rpc_script := [], trace := [Attempt ''realm'' ''program'']\<rparr>)
   \<and> \<not> is_rate_limit (ResponseError 500)
   \<and> fetch_loop delay ''realm'' ''program'' (Suc 4) 500 upstream_down
     = (Inl (ResponseError 500),
        upstream_down\<lparr>rpc_script := [], trace := [Attempt ''realm'' ''program'']\<rparr>)
   \<and> fetchProposals ''realm'' ''program'' upstream_down
     = (Inl (ResponseError 500),
        upstream_down\<lparr>rpc_script := [], trace := [Attempt ''realm'' ''program'']\<rparr>)"
proof -
  have att: "fetch_try ''realm'' ''program'' upstream_down
     = (Inl (ResponseError 500),
        upstream_down\<lparr>rpc_script := [], trace := [Attempt ''realm'' ''program'']\<rparr>)"
    by (simp add: fetch_try_def new_PublicKey_def next_rpc_def log_event_def
        upstream_down_def quiet_def)
  have other: "\<not> is_rate_limit (ResponseError 500)"
    by (simp add: is_rate_limit_def)
  have "''program'' \<notin> set (bad_keys upstream_down)"
    by (simp add: upstream_down_def quiet_def)
  with non_rate_limit_aborts [OF att other, of delay 4 500] att other
  show ?thesis by simp
qed

text \<open>
  Claim C5 (on the code as it is). Five 429 answers in a row: the first one already ends
  the fetch. The catch block evaluates \<^verbatim>\<open>delay(delayTime)\<close>, \<^verbatim>\<open>delay\<close> is bound
  nowhere, and the ReferenceError raised there leaves fetchProposals: one attempt, no wait,
  four 429 answers never asked for, and an error instead of the empty sequence.
\<close>

theorem rate_limit_raises_reference_error:
  "fetchProposals ''realm'' ''program'' rate_limited
     = (Inl (ReferenceError ''delay is not defined''),
        rate_limited\<lparr>rpc_script := [too_many_requests, too_many_requests,
                                     too_many_requests, too_many_requests],
                     trace := [Attempt ''realm'' ''program'']\<rparr>)"
  by (simp add: fetchProposals_unfold fetch_try_def new_PublicKey_def next_rpc_def log_event_def
      rate_limited_def too_many_requests_def quiet_def is_rate_limit_def)

text \<open>
  The pipeline then reports a failure to the channel, not "no proposals found".
\<close>

lemma rate_limit_reported_as_failure:
  "processProposals general ''realm'' ''program'' rate_limited
     = (Inr (),
        rate_limited\<lparr>rpc_script := [too_many_requests, too_many_requests,
                                     too_many_requests, too_many_requests],
                     trace := [Attempt ''realm'' ''program'',
                               Send ''general'' ErrorOccurred True]\<rparr>)"
  by (simp add: run_defs rate_limited_def too_many_requests_def quiet_def general_def cong: cbv)

text \<open>
  The loop itself is the one the retry policy describes: were \<^verbatim>\<open>delay\<close> bound to a helper
  that waits, five 429 answers in a row would give five attempts, each followed by its
  wait of 500, 1000, 2000, 4000 and 8000 ms, no sixth attempt, and the empty sequence.
\<close>

lemma backoff_schedule_with_wait:
  "fetchProposals_with wait_ms ''realm'' ''program''
       (rate_limited\<lparr>rpc_script := rpc_script rate_limited @ rest\<rparr>)
     = (Inr [],
        quiet\<lparr>rpc_script := rest,
              trace := [Attempt ''realm'' ''program'', Delay 500,
                        Attempt ''realm'' ''program'', Delay 1000,
                        Attempt ''realm'' ''program'', Delay 2000,
                        Attempt ''realm'' ''program'', Delay 4000,
                        Attempt ''realm'' ''program'', Delay 8000]\<rparr>)"
  by (simp add: fetchProposals_with_def fetch_loop_5 await_def try_catch_def wait_ms_def
      resolve_def fetch_try_def new_PublicKey_def next_rpc_def log_event_def
      rate_limited_def too_many_requests_def quiet_def is_rate_limit_def cong: cbv)

subsection \<open>Dedup and notify pipeline\<close>



text \<open>
  The cycle after the interrupted mark: the record is still new, and is notified again.
\<close>

lemma renotified_after_interrupted_mark:
  "processProposals general ''realm'' ''program''
       (snd (processProposals general ''realm'' ''program'' interrupted_mark)
          \<lparr>rpc_script := [Returns [''G1''] [raw ''P1'' ''G1'']], trace := []\<rparr>)
     = (Inr (),
        quiet\<lparr>proposal_store := Some [''P1''],
              trace := [Attempt ''realm'' ''program'',
                        Send ''general'' (embed_of (to_record (raw ''P1'' ''G1''))) True,
                        WriteStore [''P1''] True, Send ''general'' (Detected 1) True]\<rparr>)"
  by (simp add: run_defs interrupted_mark_def quiet_def general_def raw_def cong: cbv)

text \<open>
  Claim C9. When the fetcher returns the empty sequence, the cycle adds to the trace the
  fetch attempt and one send of "No proposals found during this check.", and nothing else
  when that send is delivered; when the channel refuses it, the only further entry is the
  send of the generic failure message. In either case there is exactly one send of the
  informational message, no per-record notification, no summary message and no write to
  the seen-set file, and the store is what it was.
\<close>

theorem empty_fetch_one_message:
  assumes "fetchProposals realm program w = (Inr [], w1)"
    and "processProposals ch realm program w = (r, w')"
  shows "\<exists>ok tail.
           trace w' = trace w @ Attempt realm program
                        # Send (channelId ch) NoProposalsFound ok # tail
         \<and> (ok \<and> tail = [] \<or> \<not> ok \<and> (\<exists>ok'. tail = [Send (channelId ch) ErrorOccurred ok']))
         \<and> proposal_store w' = proposal_store w"
proof -
  have t1: "trace w1 = trace w @ [Attempt realm program]"
    and s1: "proposal_store w1 = proposal_store w"
    using fetchProposals_effect(1,2) [OF assms(1)] by simp_all
  obtain r2 w2 where 2: "channel_send ch NoProposalsFound w1 = (r2, w2)" by fastforce
  have t2: "trace w2 = trace w1 @ [Send (channelId ch) NoProposalsFound (\<not> isl r2)]"
    and s2: "proposal_store w2 = proposal_store w1"
    using channel_send_effect(1,2) [OF 2] by simp_all
  show ?thesis
  proof (cases r2)
    case (Inr u)
    with assms 2 have "w' = w2"
      by (simp add: processProposals_def try_catch_def processProposals_try_def await_def)
    with t1 t2 s1 s2 Inr show ?thesis by auto
  next
    case (Inl e)
    with assms 2 have 3: "channel_send ch ErrorOccurred w2 = (r, w')"
      by (simp add: processProposals_def try_catch_def processProposals_try_def await_def)
    have "trace w' = trace w2 @ [Send (channelId ch) ErrorOccurred (\<not> isl r)]"
      and "proposal_store w' = proposal_store w2"
      using channel_send_effect(1,2) [OF 3] by simp_all
    with t1 t2 s1 s2 Inl show ?thesis by auto
  qed
qed

theorem empty_fetch_one_message_witness:
  "fetchProposals ''realm'' ''program'' other_realm_only
     = (Inr [], other_realm_only\<lparr>rpc_script := [], trace := [Attempt ''realm'' ''program'']\<rparr>)
   \<and> (\<exists>ok tail.
         trace (snd (processProposals general ''realm'' ''program'' other_realm_only))
           = trace other_realm_only @ Attempt ''realm'' ''program''
               # Send (channelId general) NoProposalsFound ok # tail
       \<and> (ok \<and> tail = [] \<or> \<not> ok \<and> (\<exists>ok'. tail = [Send (channelId general) ErrorOccurred ok']))
       \<and> proposal_store (snd (processProposals general ''realm'' ''program'' other_realm_only))
           = proposal_store other_realm_only)
   \<and> trace (snd (processProposals general ''realm'' ''program'' other_realm_only))
       = [Attempt ''realm'' ''program'', Send ''general'' NoProposalsFound True]"
proof -
  have f: "fetchProposals ''realm'' ''program'' other_realm_only
     = (Inr [], other_realm_only\<lparr>rpc_script := [], trace := [Attempt ''realm'' ''program'']\<rparr>)"
    by (simp add: fetchProposals_unfold fetch_try_def new_PublicKey_def next_rpc_def
        log_event_def other_realm_only_def quiet_def raw_def)
  have t: "trace (snd (processProposals general ''realm'' ''program'' other_realm_only))
       = [Attempt ''realm'' ''program'', Send ''general'' NoProposalsFound True]"
    by (simp add: run_defs other_realm_only_def quiet_def general_def raw_def cong: cbv)
  from empty_fetch_one_message [OF f, of general
      "fst (processProposals general ''realm'' ''program'' other_realm_only)"
      "snd (processProposals general ''realm'' ''program'' other_realm_only)"] f t
  show ?thesis by simp
qed

text \<open>
  Claim C8 (amended). A run returns no value: processProposals resolves with undefined on
  every path that completes. What a completed run exposes of its counts goes to the
  destination: when the try block ends without an error, the summary messages of the run
  are the single message "Detected n new proposals.", n being the number of notifications
  delivered in the run, when n is positive, and none when it is zero; the number of
  records checked is not exposed. When the try block raises, the outcome of the run is the
  outcome of sending the generic failure message.
\<close>

theorem counts_only_in_summary:
  "(\<forall>w'. processProposals_try ch realm program w = (Inr (), w') \<longrightarrow>
        processProposals ch realm program w = (Inr (), w')
      \<and> (\<exists>tr. trace w' = trace w @ tr
            \<and> filter is_summary tr =
                (if 0 < length (filter is_notification tr)
                 then [Send (channelId ch) (Detected (length (filter is_notification tr))) True]
                 else [])))
   \<and> (\<forall>e w1. processProposals_try ch realm program w = (Inl e, w1) \<longrightarrow>
        processProposals ch realm program w = channel_send ch ErrorOccurred w1)"
proof (intro conjI allI impI)
  fix e w1
  assume "processProposals_try ch realm program w = (Inl e, w1)"
  then show "processProposals ch realm program w = channel_send ch ErrorOccurred w1"
    by (simp add: processProposals_def try_catch_def)
next
  fix w'
  assume a: "processProposals_try ch realm program w = (Inr (), w')"
  then show "processProposals ch realm program w = (Inr (), w')"
    by (simp add: processProposals_def try_catch_def)
  let ?goal = "\<exists>tr. trace w' = trace w @ tr
            \<and> filter is_summary tr =
                (if 0 < length (filter is_notification tr)
                 then [Send (channelId ch) (Detected (length (filter is_notification tr))) True]
                 else [])"
  obtain r1 w1 where 1: "fetchProposals realm program w = (r1, w1)" by fastforce
  from a 1 obtain ps where r1: "r1 = Inr ps"
    by (cases r1) (auto simp: processProposals_try_def await_def)
  have t1: "trace w1 = trace w @ [Attempt realm program]"
    using fetchProposals_effect(1) [OF 1] r1 by simp
  show ?goal
  proof (cases "ps = []")
    case True
    with a 1 r1 have cs: "channel_send ch NoProposalsFound w1 = (Inr (), w')"
      by (simp add: processProposals_try_def await_def)
    from channel_send_effect(1) [OF cs] t1 show ?thesis by simp
  next
    case False
    obtain r2 w2 where 2: "for_proposals ch ps 0 w1 = (r2, w2)" by fastforce
    from a 1 r1 False 2 obtain n where r2: "r2 = Inr n"
      by (cases r2) (auto simp: processProposals_try_def await_def)
    from for_proposals_count [OF 2 [unfolded r2]] obtain tr2 where
      t2: "trace w2 = trace w1 @ tr2" and n: "n = length (filter is_notification tr2)"
      and s2: "filter is_summary tr2 = []" by auto
    show ?thesis
    proof (cases "0 < n")
      case True
      with a 1 r1 False 2 r2 have cs: "channel_send ch (Detected n) w2 = (Inr (), w')"
        by (simp add: processProposals_try_def await_def)
      from channel_send_effect(1) [OF cs] t1 t2 n s2 True show ?thesis by simp
    next
      case z: False
      with a 1 r1 False 2 r2 have "w' = w2"
        by (simp add: processProposals_try_def await_def resolve_def)
      with t1 t2 n s2 z show ?thesis by simp
    qed
  qed
qed

theorem counts_only_in_summary_witness:
  "processProposals_try general ''realm'' ''program'' three_proposals
     = (Inr (),
        quiet\<lparr>proposal_store := Some [''P1'', ''P2''],
              trace := [Attempt ''realm'' ''program'', WriteStore [] True,
                        Send ''general'' (embed_of (to_record (raw ''P1'' ''G1''))) True,
                        WriteStore [''P1''] True,
                        Send ''general'' (embed_of (to_record (raw ''P2'' ''G2''))) True,
                        WriteStore [''P1'', ''P2''] True,
                        Send ''general'' (Detected 2) True]\<rparr>)
   \<and> processProposals general ''realm'' ''program'' three_proposals
     = processProposals_try general ''realm'' ''program'' three_proposals
   \<and> filter is_summary (trace (snd (processProposals general ''realm'' ''program'' three_proposals)))
     = [Send ''general'' (Detected 2) True]"
proof -
  let ?w' = "quiet\<lparr>proposal_store := Some [''P1'', ''P2''],
              trace := [Attempt ''realm'' ''program'', WriteStore [] True,
                        Send ''general'' (embed_of (to_record (raw ''P1'' ''G1''))) True,
                        WriteStore [''P1''] True,
                        Send ''general'' (embed_of (to_record (raw ''P2'' ''G2''))) True,
                        WriteStore [''P1'', ''P2''] True,
                        Send ''general'' (Detected 2) True]\<rparr>"
  have t: "processProposals_try general ''realm'' ''program'' three_proposals = (Inr (), ?w')"
    by (simp add: run_defs three_proposals_def quiet_def general_def raw_def cong: cbv)
  from counts_only_in_summary [of general "''realm''" "''program''" three_proposals]
  have "processProposals general ''realm'' ''program'' three_proposals = (Inr (), ?w')"
    using t by blast
  with t show ?thesis by (simp add: embed_of_def)
qed

text \<open>
  Against claim C8 as stated: a cycle that checks one record and a cycle that checks two,
  all of them known, return the same value and leave the same trace (the fetch attempt
  alone, no message), so no count of records checked reaches the caller.
\<close>

theorem result_without_counts_counterexample:
  "fetched ''realm'' ''program'' one_known = [to_record (raw ''P1'' ''G1'')]
   \<and> fetched ''realm'' ''program'' two_known
       = [to_record (raw ''P1'' ''G1''), to_record (raw ''P2'' ''G1'')]
   \<and> processProposals general ''realm'' ''program'' one_known
       = (Inr (), one_known\<lparr>rpc_script := [], trace := [Attempt ''realm'' ''program'']\<rparr>)
   \<and> processProposals general ''realm'' ''program'' two_known
       = (Inr (), two_known\<lparr>rpc_script := [], trace := [Attempt ''realm'' ''program'']\<rparr>)"
  by (simp add: fetched_def run_defs one_known_def two_known_def quiet_def general_def raw_def
      cong: cbv)

subsection \<open>Monitor scheduler\<close>




subsection \<open>Command handler and event loop\<close>

text \<open>
  Claim C2 (on the code as it is). The handler has no branch for \<^verbatim>\<open>!reset\<close>: on a bot
  that is set up and has notified P1, the command changes nothing at all. The
  configuration is still complete, P1 is still known, and monitoring still starts.
\<close>

theorem reset_command_changes_nothing:
  "messageCreate (command ''!reset'') configured_seen = (Inr (), configured_seen)
   \<and> config_file configured_seen = Some dao
   \<and> fst (isNewProposal ''P1'' configured_seen) = Inr False
   \<and> inFlight (startMonitoring_async dao configured_seen) = [MonitorCycle general dao]"
  by (simp add: messageCreate_def loadConfig_def setup_branch_def setchannel_branch_def
      fetch_branch_def fs_call_def command_def configured_seen_def quiet_def dao_def
      isNewProposal_def initializeProposalStore_def fs_access_def try_catch_def read_store_def
      await_def resolve_def startMonitoring_async_def sched_defs general_def cong: cbv)

text \<open>
  Claim C4 (on the code as it is). After \<^verbatim>\<open>!setup realm program\<close> and \<^verbatim>\<open>!setchannel\<close>
  the first monitored cycle is in flight. A \<^verbatim>\<open>!fetch\<close> that arrives before it settles is
  neither rejected nor merged into it: the handler starts a second fetch/notify sequence
  next to the running one, and two cycles are in flight at once.
\<close>

theorem fetch_while_running_starts_second_cycle:
  "inFlight (loop_step (MessageCreate (command ''!setchannel''))
               (loop_step (MessageCreate (command ''!setup realm program'')) quiet))
     = [MonitorCycle general dao]
   \<and> inFlight (loop_step (MessageCreate (command ''!fetch''))
               (loop_step (MessageCreate (command ''!setchannel''))
                  (loop_step (MessageCreate (command ''!setup realm program'')) quiet)))
     = [MonitorCycle general dao, FetchCycle general ''realm'' ''program'']"
  by (simp add: handler_defs command_def quiet_def dao_def general_def Let_def cong: cbv)

text \<open>
  The same from any world: the \<^verbatim>\<open>!fetch\<close> branch looks at the configuration and the
  channel only. Whenever the stored configuration is complete and its channel resolves, it
  puts a call of processProposals of its own in flight, behind whatever is in flight
  already, and leaves timers, handle and trace as they were.
\<close>

lemma fetch_always_starts_cycle:
  assumes "\<not> author_bot m" and "content m = ''!fetch''"
    and "fst (loadConfig w) = c"
    and "truthy (realmId c)" and "truthy (programId c)" and "truthy (notificationChannelId c)"
    and "map_of (channels w) (str (notificationChannelId c)) = Some (Some ch)"
  shows "inFlight (loop_step (MessageCreate m) w)
           = inFlight w @ [FetchCycle ch (str (realmId c)) (str (programId c))]
       \<and> timers (loop_step (MessageCreate m) w) = timers w
       \<and> monitoringTimeout (loop_step (MessageCreate m) w) = monitoringTimeout w
       \<and> trace (loop_step (MessageCreate m) w) = trace w"
  using assms
  by (auto simp: messageCreate_def loadConfig_def setup_branch_def setchannel_branch_def
      fetch_branch_def fs_call_def client_channels_fetch_def
      split: list.splits option.splits prod.splits sum.splits)

lemma fetch_always_starts_cycle_example:
  "inFlight (loop_step (MessageCreate (command ''!fetch''))
       (configured_seen\<lparr>inFlight := [MonitorCycle general dao]\<rparr>))
     = [MonitorCycle general dao, FetchCycle general ''realm'' ''program'']
   \<and> timers (loop_step (MessageCreate (command ''!fetch''))
       (configured_seen\<lparr>inFlight := [MonitorCycle general dao]\<rparr>)) = []"
proof -
  let ?w = "configured_seen\<lparr>inFlight := [MonitorCycle general dao]\<rparr>"
  have 1: "\<not> author_bot (command ''!fetch'')" "content (command ''!fetch'') = ''!fetch''"
    by (simp_all add: command_def)
  have 2: "fst (loadConfig ?w) = dao"
    by (simp add: loadConfig_def fs_call_def configured_seen_def quiet_def)
  have 3: "truthy (realmId dao)" "truthy (programId dao)" "truthy (notificationChannelId dao)"
    by (simp_all add: truthy_def dao_def)
  have 4: "map_of (channels ?w) (str (notificationChannelId dao)) = Some (Some general)"
    by (simp add: configured_seen_def quiet_def dao_def str_def)
  from fetch_always_starts_cycle [OF 1 2 3 4] show ?thesis
    by (simp add: configured_seen_def quiet_def dao_def str_def)
qed

end
